theory Spec2Isabelle
  imports Main
begin

section \<open>Kubernetes objects, API errors and the backend\<close>

text \<open>
  The client in \<^verbatim>\<open>migration/client.go\<close> is a facade over \<^verbatim>\<open>kubernetes.Interface\<close>.
  Every object it handles (Job, Pod, PersistentVolume, PersistentVolumeClaim, Namespace)
  is addressed by the name and namespace of its metadata; the model keeps the metadata
  the code reads (\<open>name\<close>, \<open>namespace\<close>) together with the resource version and
  the labels, which stand for the fields the code never looks at.
\<close>

record entity =
  name :: string
  namespace :: string
  resourceVersion :: nat
  labels :: "(string \<times> string) list"

datatype kind = Job | Pod | PersistentVolume | PersistentVolumeClaim | Namespace

text \<open>
  A resource handle is what \<^verbatim>\<open>k.c.BatchV1().Jobs(ns)\<close> or
  \<^verbatim>\<open>k.c.CoreV1().PersistentVolumes()\<close> returns: the kind and the namespace the
  calls are scoped to (empty for the cluster-scoped kinds).
\<close>

type_synonym resource = "kind \<times> string"

definition Jobs :: "string \<Rightarrow> resource" where
  "Jobs ns = (Job, ns)"

definition Pods :: "string \<Rightarrow> resource" where
  "Pods ns = (Pod, ns)"

definition PersistentVolumes :: resource where
  "PersistentVolumes = (PersistentVolume, [])"

definition PersistentVolumeClaims :: "string \<Rightarrow> resource" where
  "PersistentVolumeClaims ns = (PersistentVolumeClaim, ns)"

definition Namespaces :: resource where
  "Namespaces = (Namespace, [])"

text \<open>
  Errors are values. The backend reports a status error with a reason; the code wraps
  some of them with \<^verbatim>\<open>errors.Wrapf(err, msg)\<close>. The classifiers
  \<^verbatim>\<open>apierrors.IsAlreadyExists\<close>, \<^verbatim>\<open>IsNotFound\<close> and \<^verbatim>\<open>IsConflict\<close> read the reason
  of the status error, through any wrapping; the code only ever applies them to an error
  as the backend returned it.
\<close>

datatype reason = AlreadyExists | NotFound | Conflict | Other

datatype err = StatusError reason string | Wrapf err string

fun ReasonForError :: "err \<Rightarrow> reason" where
  "ReasonForError (StatusError r m) = r"
| "ReasonForError (Wrapf e m) = ReasonForError e"

definition IsAlreadyExists :: "err \<Rightarrow> bool" where
  "IsAlreadyExists e = (ReasonForError e = AlreadyExists)"

definition IsNotFound :: "err \<Rightarrow> bool" where
  "IsNotFound e = (ReasonForError e = NotFound)"

definition IsConflict :: "err \<Rightarrow> bool" where
  "IsConflict e = (ReasonForError e = Conflict)"

text \<open>
  The backend is a parameter: a record of the five calls the code makes, each a
  function of the server's state \<open>'s\<close> returning a reply and the next state.
  \<open>Get\<close>, \<open>List\<close> and \<open>Update\<close> reply with an error or a value (the code reads the
  value only when the error is nil). \<open>Create\<close> replies with Go's pair as it is, the
  object (or nil) and the error (or nil), because \<^verbatim>\<open>CreateJob\<close> and \<^verbatim>\<open>CreatePVC\<close>
  keep the returned object also when the error is not nil.
\<close>

record 's backend =
  Create :: "resource \<Rightarrow> entity \<Rightarrow> 's \<Rightarrow> (entity option \<times> err option) \<times> 's"
  Get :: "resource \<Rightarrow> string \<Rightarrow> 's \<Rightarrow> (err + entity) \<times> 's"
  List :: "resource \<Rightarrow> 's \<Rightarrow> (err + entity list) \<times> 's"
  Delete :: "resource \<Rightarrow> string \<Rightarrow> 's \<Rightarrow> err option \<times> 's"
  Update :: "resource \<Rightarrow> entity \<Rightarrow> 's \<Rightarrow> (err + entity) \<times> 's"

section \<open>The client's world: objects behind pointers, the server, the calls made\<close>

text \<open>
  The Go code passes objects by pointer and the update callback mutates them in place,
  so the objects live in a store: \<open>heap\<close> maps an address to the object there and
  \<open>next_addr\<close> is the first address not yet allocated. \<open>server\<close> is the backend's
  state. \<open>calls\<close> records, in order, every call to the backend with its reply and
  every invocation of the update callback with the object it was given.
\<close>

datatype event =
    EvCreate resource entity "entity option \<times> err option"
  | EvGet resource string "err + entity"
  | EvList resource "err + entity list"
  | EvDelete resource string "err option"
  | EvUpdate resource entity "err + entity"
  | EvMutate entity

record 's world =
  heap :: "nat \<Rightarrow> entity"
  next_addr :: nat
  server :: 's
  calls :: "event list"

definition record_call :: "'s \<Rightarrow> event \<Rightarrow> 's world \<Rightarrow> 's world" where
  "record_call s' ev w = w\<lparr>server := s', calls := calls w @ [ev]\<rparr>"

definition new :: "entity \<Rightarrow> 's world \<Rightarrow> nat \<times> 's world" where
  "new x w = (next_addr w, w\<lparr>heap := (heap w)(next_addr w := x), next_addr := Suc (next_addr w)\<rparr>)"

text \<open>
  The typed clients of \<^verbatim>\<open>kubernetes.Interface\<close>: each sends the call to the backend,
  records it, and hands the reply back as a newly allocated object, as the generated
  clients decode every response into an object of their own.
\<close>

definition client_Create ::
  "'s backend \<Rightarrow> resource \<Rightarrow> nat \<Rightarrow> 's world \<Rightarrow> (nat option \<times> err option) \<times> 's world" where
  "client_Create b r p w =
     (case Create b r (heap w p) (server w) of
        ((obj, e), s') \<Rightarrow>
          (let w1 = record_call s' (EvCreate r (heap w p) (obj, e)) w in
           case obj of
             None \<Rightarrow> ((None, e), w1)
           | Some x \<Rightarrow> (case new x w1 of (q, w2) \<Rightarrow> ((Some q, e), w2))))"

definition client_Get ::
  "'s backend \<Rightarrow> resource \<Rightarrow> string \<Rightarrow> 's world \<Rightarrow> (err + nat) \<times> 's world" where
  "client_Get b r n w =
     (case Get b r n (server w) of
        (rep, s') \<Rightarrow>
          (let w1 = record_call s' (EvGet r n rep) w in
           case rep of
             Inl e \<Rightarrow> (Inl e, w1)
           | Inr x \<Rightarrow> (case new x w1 of (q, w2) \<Rightarrow> (Inr q, w2))))"

definition client_List ::
  "'s backend \<Rightarrow> resource \<Rightarrow> 's world \<Rightarrow> (err + entity list) \<times> 's world" where
  "client_List b r w =
     (case List b r (server w) of
        (rep, s') \<Rightarrow> (rep, record_call s' (EvList r rep) w))"

definition client_Delete ::
  "'s backend \<Rightarrow> resource \<Rightarrow> string \<Rightarrow> 's world \<Rightarrow> err option \<times> 's world" where
  "client_Delete b r n w =
     (case Delete b r n (server w) of
        (rep, s') \<Rightarrow> (rep, record_call s' (EvDelete r n rep) w))"

definition client_Update ::
  "'s backend \<Rightarrow> resource \<Rightarrow> nat \<Rightarrow> 's world \<Rightarrow> (err + nat) \<times> 's world" where
  "client_Update b r p w =
     (case Update b r (heap w p) (server w) of
        (rep, s') \<Rightarrow>
          (let w1 = record_call s' (EvUpdate r (heap w p) rep) w in
           case rep of
             Inl e \<Rightarrow> (Inl e, w1)
           | Inr x \<Rightarrow> (case new x w1 of (q, w2) \<Rightarrow> (Inr q, w2))))"

text \<open>
  \<^verbatim>\<open>updateFunc(pv)\<close>: the callback mutates the object behind the pointer in place.
\<close>

definition call_updateFunc :: "(entity \<Rightarrow> entity) \<Rightarrow> nat \<Rightarrow> 's world \<Rightarrow> 's world" where
  "call_updateFunc updateFunc p w =
     w\<lparr>heap := (heap w)(p := updateFunc (heap w p)), calls := calls w @ [EvMutate (heap w p)]\<rparr>"

section \<open>The operations of \<^verbatim>\<open>kubernetesClient\<close>\<close>

text \<open>
  A Go function returns or panics. \<^verbatim>\<open>CreateJob\<close> and \<^verbatim>\<open>CreatePVC\<close> dereference the
  pointer that \<open>Create\<close> returned, which is nil when the backend returns no object.
\<close>

datatype 'a outcome = Returns 'a | Panics

definition CreateJob :: "'s backend \<Rightarrow> nat \<Rightarrow> 's world \<Rightarrow> (err + nat) outcome \<times> 's world" where
  "CreateJob b job w =
     (case client_Create b (Jobs (namespace (heap w job))) job w of
        ((job1, e), w1) \<Rightarrow>
          if e \<noteq> None \<and> \<not> IsAlreadyExists (the e)
          then (Returns (Inl (Wrapf (the e) ''could not create Job'')), w1)
          else (case job1 of
                  None \<Rightarrow> (Panics, w1)
                | Some j \<Rightarrow>
                    (case client_Get b (Jobs (namespace (heap w1 j))) (name (heap w1 j)) w1 of
                       (Inl e2, w2) \<Rightarrow> (Returns (Inl e2), w2)
                     | (Inr job2, w2) \<Rightarrow> (Returns (Inr job2), w2))))"

definition GetJob :: "'s backend \<Rightarrow> string \<Rightarrow> string \<Rightarrow> 's world \<Rightarrow> (err + nat) \<times> 's world" where
  "GetJob b n ns w =
     (case client_Get b (Jobs ns) n w of
        (Inl e, w1) \<Rightarrow> (Inl e, w1)
      | (Inr job, w1) \<Rightarrow> (Inr job, w1))"

definition DeleteJob :: "'s backend \<Rightarrow> string \<Rightarrow> string \<Rightarrow> 's world \<Rightarrow> err option \<times> 's world" where
  "DeleteJob b n ns w =
     (case client_Delete b (Jobs ns) n w of
        (e, w1) \<Rightarrow> if e \<noteq> None \<and> IsNotFound (the e) then (None, w1) else (e, w1))"

definition ListPods :: "'s backend \<Rightarrow> string \<Rightarrow> 's world \<Rightarrow> (err + entity list) \<times> 's world" where
  "ListPods b ns w =
     (case client_List b (Pods ns) w of
        (Inl e, w1) \<Rightarrow> (Inl e, w1)
      | (Inr items, w1) \<Rightarrow> (Inr items, w1))"

definition DeletePod :: "'s backend \<Rightarrow> string \<Rightarrow> string \<Rightarrow> 's world \<Rightarrow> err option \<times> 's world" where
  "DeletePod b n ns w =
     (case client_Delete b (Pods ns) n w of
        (e, w1) \<Rightarrow> if e \<noteq> None \<and> IsNotFound (the e) then (None, w1) else (e, w1))"

definition GetPV :: "'s backend \<Rightarrow> string \<Rightarrow> 's world \<Rightarrow> (err + nat) \<times> 's world" where
  "GetPV b n w =
     (case client_Get b PersistentVolumes n w of
        (Inl e, w1) \<Rightarrow> (Inl e, w1)
      | (Inr pv, w1) \<Rightarrow> (Inr pv, w1))"

text \<open>
  \<^verbatim>\<open>UpdatePV\<close>: the \<^verbatim>\<open>for\<close> loop has no bound, so it is a partial function: \<open>None\<close>
  is a loop that never returns. The loop is entered with the fetched object already
  mutated; \<open>pv\<close> is the pointer the Go variable holds at the loop head. The retry fetch
  reads the name from that object, after the callback has run on it. The debug log line
  has no effect on the result and is left out.
\<close>

partial_function (option) UpdatePV_loop ::
  "'s backend \<Rightarrow> (entity \<Rightarrow> entity) \<Rightarrow> nat \<Rightarrow> 's world \<Rightarrow> ((err + nat) \<times> 's world) option" where
  "UpdatePV_loop b updateFunc pv w =
     (case client_Update b PersistentVolumes pv w of
        (Inr updatedPV, w1) \<Rightarrow> Some (Inr updatedPV, w1)
      | (Inl e, w1) \<Rightarrow>
          if \<not> IsConflict e then Some (Inl e, w1)
          else (case client_Get b PersistentVolumes (name (heap w1 pv)) w1 of
                  (Inl e2, w2) \<Rightarrow> Some (Inl e2, w2)
                | (Inr pv2, w2) \<Rightarrow> UpdatePV_loop b updateFunc pv2 (call_updateFunc updateFunc pv2 w2)))"

definition UpdatePV ::
  "'s backend \<Rightarrow> nat \<Rightarrow> (entity \<Rightarrow> entity) \<Rightarrow> 's world \<Rightarrow> ((err + nat) \<times> 's world) option" where
  "UpdatePV b pv updateFunc w =
     (case client_Get b PersistentVolumes (name (heap w pv)) w of
        (Inl e, w1) \<Rightarrow> Some (Inl (Wrapf e ''could not get PVC to update''), w1)
      | (Inr pv1, w1) \<Rightarrow> UpdatePV_loop b updateFunc pv1 (call_updateFunc updateFunc pv1 w1))"

text \<open>
  \<^verbatim>\<open>CreatePVC\<close>, \<^verbatim>\<open>GetPVC\<close>, \<^verbatim>\<open>ListPVCs\<close>, \<^verbatim>\<open>DeletePVC\<close> (which returns the
  backend's answer as it is) and \<^verbatim>\<open>UpdatePVC\<close>.
\<close>

definition CreatePVC :: "'s backend \<Rightarrow> nat \<Rightarrow> 's world \<Rightarrow> (err + nat) outcome \<times> 's world" where
  "CreatePVC b pvc w =
     (case client_Create b (PersistentVolumeClaims (namespace (heap w pvc))) pvc w of
        ((pvc1, e), w1) \<Rightarrow>
          if e \<noteq> None \<and> \<not> IsAlreadyExists (the e)
          then (Returns (Inl (Wrapf (the e) ''could not create PVC'')), w1)
          else (case pvc1 of
                  None \<Rightarrow> (Panics, w1)
                | Some p \<Rightarrow>
                    (case client_Get b (PersistentVolumeClaims (namespace (heap w1 p)))
                            (name (heap w1 p)) w1 of
                       (Inl e2, w2) \<Rightarrow> (Returns (Inl e2), w2)
                     | (Inr pvc2, w2) \<Rightarrow> (Returns (Inr pvc2), w2))))"

definition GetPVC :: "'s backend \<Rightarrow> string \<Rightarrow> string \<Rightarrow> 's world \<Rightarrow> (err + nat) \<times> 's world" where
  "GetPVC b n ns w =
     (case client_Get b (PersistentVolumeClaims ns) n w of
        (Inl e, w1) \<Rightarrow> (Inl e, w1)
      | (Inr pvc, w1) \<Rightarrow> (Inr pvc, w1))"

definition ListPVCs :: "'s backend \<Rightarrow> string \<Rightarrow> 's world \<Rightarrow> (err + entity list) \<times> 's world" where
  "ListPVCs b ns w =
     (case client_List b (PersistentVolumeClaims ns) w of
        (Inl e, w1) \<Rightarrow> (Inl e, w1)
      | (Inr items, w1) \<Rightarrow> (Inr items, w1))"

definition DeletePVC :: "'s backend \<Rightarrow> string \<Rightarrow> string \<Rightarrow> 's world \<Rightarrow> err option \<times> 's world" where
  "DeletePVC b n ns w = client_Delete b (PersistentVolumeClaims ns) n w"

partial_function (option) UpdatePVC_loop ::
  "'s backend \<Rightarrow> (entity \<Rightarrow> entity) \<Rightarrow> nat \<Rightarrow> 's world \<Rightarrow> ((err + nat) \<times> 's world) option" where
  "UpdatePVC_loop b updateFunc pvc w =
     (case client_Update b (PersistentVolumeClaims (namespace (heap w pvc))) pvc w of
        (Inr updatedPVC, w1) \<Rightarrow> Some (Inr updatedPVC, w1)
      | (Inl e, w1) \<Rightarrow>
          if \<not> IsConflict e then Some (Inl e, w1)
          else (case client_Get b (PersistentVolumeClaims (namespace (heap w1 pvc)))
                       (name (heap w1 pvc)) w1 of
                  (Inl e2, w2) \<Rightarrow> Some (Inl e2, w2)
                | (Inr pvc2, w2) \<Rightarrow>
                    UpdatePVC_loop b updateFunc pvc2 (call_updateFunc updateFunc pvc2 w2)))"

definition UpdatePVC ::
  "'s backend \<Rightarrow> nat \<Rightarrow> (entity \<Rightarrow> entity) \<Rightarrow> 's world \<Rightarrow> ((err + nat) \<times> 's world) option" where
  "UpdatePVC b pvc updateFunc w =
     (case client_Get b (PersistentVolumeClaims (namespace (heap w pvc))) (name (heap w pvc)) w of
        (Inl e, w1) \<Rightarrow> Some (Inl (Wrapf e ''could not get PVC to update''), w1)
      | (Inr pvc1, w1) \<Rightarrow> UpdatePVC_loop b updateFunc pvc1 (call_updateFunc updateFunc pvc1 w1))"

text \<open>\<^verbatim>\<open>GetNamespace\<close>, \<^verbatim>\<open>ListNamespaces\<close> and \<^verbatim>\<open>UpdateNamespace\<close>.\<close>

definition GetNamespace :: "'s backend \<Rightarrow> string \<Rightarrow> 's world \<Rightarrow> (err + nat) \<times> 's world" where
  "GetNamespace b n w =
     (case client_Get b Namespaces n w of
        (Inl e, w1) \<Rightarrow> (Inl e, w1)
      | (Inr ns, w1) \<Rightarrow> (Inr ns, w1))"

definition ListNamespaces :: "'s backend \<Rightarrow> 's world \<Rightarrow> (err + entity list) \<times> 's world" where
  "ListNamespaces b w =
     (case client_List b Namespaces w of
        (Inl e, w1) \<Rightarrow> (Inl e, w1)
      | (Inr items, w1) \<Rightarrow> (Inr items, w1))"

partial_function (option) UpdateNamespace_loop ::
  "'s backend \<Rightarrow> (entity \<Rightarrow> entity) \<Rightarrow> nat \<Rightarrow> 's world \<Rightarrow> ((err + nat) \<times> 's world) option" where
  "UpdateNamespace_loop b updateFunc ns w =
     (case client_Update b Namespaces ns w of
        (Inr updatedNS, w1) \<Rightarrow> Some (Inr updatedNS, w1)
      | (Inl e, w1) \<Rightarrow>
          if \<not> IsConflict e then Some (Inl e, w1)
          else (case client_Get b Namespaces (name (heap w1 ns)) w1 of
                  (Inl e2, w2) \<Rightarrow> Some (Inl e2, w2)
                | (Inr ns2, w2) \<Rightarrow>
                    UpdateNamespace_loop b updateFunc ns2 (call_updateFunc updateFunc ns2 w2)))"

definition UpdateNamespace ::
  "'s backend \<Rightarrow> nat \<Rightarrow> (entity \<Rightarrow> entity) \<Rightarrow> 's world \<Rightarrow> ((err + nat) \<times> 's world) option" where
  "UpdateNamespace b ns updateFunc w =
     (case client_Get b Namespaces (name (heap w ns)) w of
        (Inl e, w1) \<Rightarrow> Some (Inl (Wrapf e ''could not get PVC to update''), w1)
      | (Inr ns1, w1) \<Rightarrow> UpdateNamespace_loop b updateFunc ns1 (call_updateFunc updateFunc ns1 w1))"

section \<open>The common shape of the three update operations\<close>

text \<open>
  The three loops are the same text up to the resource handle, which \<^verbatim>\<open>UpdatePVC\<close>
  computes from the object's namespace and the other two do not. \<open>retry_loop\<close> and
  \<open>update_with_retry\<close> take the handle as a function of the object; each operation is
  proved equal to its instance below, and the properties are then proved once.
\<close>

partial_function (option) retry_loop ::
  "'s backend \<Rightarrow> (entity \<Rightarrow> resource) \<Rightarrow> (entity \<Rightarrow> entity) \<Rightarrow> nat \<Rightarrow> 's world
     \<Rightarrow> ((err + nat) \<times> 's world) option" where
  "retry_loop b res updateFunc p w =
     (case client_Update b (res (heap w p)) p w of
        (Inr updated, w1) \<Rightarrow> Some (Inr updated, w1)
      | (Inl e, w1) \<Rightarrow>
          if \<not> IsConflict e then Some (Inl e, w1)
          else (case client_Get b (res (heap w1 p)) (name (heap w1 p)) w1 of
                  (Inl e2, w2) \<Rightarrow> Some (Inl e2, w2)
                | (Inr p2, w2) \<Rightarrow>
                    retry_loop b res updateFunc p2 (call_updateFunc updateFunc p2 w2)))"

definition update_with_retry ::
  "'s backend \<Rightarrow> (entity \<Rightarrow> resource) \<Rightarrow> nat \<Rightarrow> (entity \<Rightarrow> entity) \<Rightarrow> 's world
     \<Rightarrow> ((err + nat) \<times> 's world) option" where
  "update_with_retry b res p updateFunc w =
     (case client_Get b (res (heap w p)) (name (heap w p)) w of
        (Inl e, w1) \<Rightarrow> Some (Inl (Wrapf e ''could not get PVC to update''), w1)
      | (Inr p1, w1) \<Rightarrow> retry_loop b res updateFunc p1 (call_updateFunc updateFunc p1 w1))"

section \<open>Runs of an update operation\<close>

text \<open>
  The events a call appends to \<open>calls\<close>, and the value a call hands back: the error, or
  the object behind the returned pointer.
\<close>

definition new_calls :: "'s world \<Rightarrow> 's world \<Rightarrow> event list" where
  "new_calls w w' = drop (length (calls w)) (calls w')"

definition handed_back :: "'s world \<Rightarrow> err + nat \<Rightarrow> err + entity" where
  "handed_back w' res = (case res of Inl e \<Rightarrow> Inl e | Inr p \<Rightarrow> Inr (heap w' p))"

text \<open>
  The state machine of an update with retry, as an acceptor of event lists:
  \<open>fetching\<close> expects a fetch, and after a successful one the callback on the fetched
  object; \<open>submitting\<close> expects the submission of the mutated object. A failed fetch ends
  the run with its error (\<open>wrap\<close> is what the operation does to it: the initial fetch's
  error is wrapped, a retry's is not). A successful submission ends the run with the
  backend's object, a conflict goes back to fetching, any other failure ends the run
  with that error.
\<close>

fun fetching :: "(err \<Rightarrow> err) \<Rightarrow> (entity \<Rightarrow> entity) \<Rightarrow> event list \<Rightarrow> err + entity \<Rightarrow> bool"
  and submitting :: "(entity \<Rightarrow> entity) \<Rightarrow> entity \<Rightarrow> event list \<Rightarrow> err + entity \<Rightarrow> bool" where
  "fetching wrap f (EvGet r n (Inl e) # rest) out = (rest = [] \<and> out = Inl (wrap e))"
| "fetching wrap f (EvGet r n (Inr x) # EvMutate x' # rest) out =
     (x' = x \<and> submitting f (f x) rest out)"
| "fetching wrap f _ out = False"
| "submitting f y (EvUpdate r y' (Inr z) # rest) out = (y' = y \<and> rest = [] \<and> out = Inr z)"
| "submitting f y (EvUpdate r y' (Inl e) # rest) out =
     (y' = y \<and> (if IsConflict e then fetching id f rest out else rest = [] \<and> out = Inl e))"
| "submitting f y _ out = False"

definition wrap_initial :: "err \<Rightarrow> err" where
  "wrap_initial e = Wrapf e ''could not get PVC to update''"

text \<open>The fetched objects, the callback's arguments and the submitted objects of a run.\<close>

fun fetched :: "event list \<Rightarrow> entity list" where
  "fetched [] = []"
| "fetched (EvGet r n (Inr x) # es) = x # fetched es"
| "fetched (ev # es) = fetched es"

fun mutated :: "event list \<Rightarrow> entity list" where
  "mutated [] = []"
| "mutated (EvMutate x # es) = x # mutated es"
| "mutated (ev # es) = mutated es"

fun submitted :: "event list \<Rightarrow> entity list" where
  "submitted [] = []"
| "submitted (EvUpdate r y rep # es) = y # submitted es"
| "submitted (ev # es) = submitted es"

text \<open>
  Backends with a conflict budget: \<open>c s\<close> is the number of update attempts the backend
  will still reject with a conflict in state \<open>s\<close>. Fetches succeed and leave the budget
  alone, a submission while the budget is positive is rejected with a conflict and uses
  one up, and a submission at budget zero is accepted.
\<close>

definition conflict_budget :: "'s backend \<Rightarrow> kind \<Rightarrow> ('s \<Rightarrow> nat) \<Rightarrow> bool" where
  "conflict_budget b k c =
     ((\<forall>ns n s. \<exists>x s'. Get b (k, ns) n s = (Inr x, s') \<and> c s' = c s) \<and>
      (\<forall>ns y s. 0 < c s \<longrightarrow>
         (\<exists>e s'. Update b (k, ns) y s = (Inl e, s') \<and> IsConflict e \<and> Suc (c s') = c s)) \<and>
      (\<forall>ns y s. c s = 0 \<longrightarrow> (\<exists>z s'. Update b (k, ns) y s = (Inr z, s'))))"



text \<open>
  The three update operations, each with the kind it works on, the namespace it scopes
  its calls to (read from the object; none for the cluster-scoped kinds) and its loop.
\<close>

definition update_operations ::
  "(kind \<times> (entity \<Rightarrow> string) \<times>
    ('s backend \<Rightarrow> nat \<Rightarrow> (entity \<Rightarrow> entity) \<Rightarrow> 's world \<Rightarrow> ((err + nat) \<times> 's world) option) \<times>
    ('s backend \<Rightarrow> (entity \<Rightarrow> entity) \<Rightarrow> nat \<Rightarrow> 's world \<Rightarrow> ((err + nat) \<times> 's world) option))
   list" where
  "update_operations =
     [(PersistentVolume, (\<lambda>x. []), UpdatePV, UpdatePV_loop),
      (PersistentVolumeClaim, namespace, UpdatePVC, UpdatePVC_loop),
      (Namespace, (\<lambda>x. []), UpdateNamespace, UpdateNamespace_loop)]"

section \<open>Simulated backends\<close>

text \<open>
  Concrete backends and a concrete world, on which the theorems below are exercised.
  The caller's object sits at address 0. \<open>simulated\<close> keeps a budget of conflicts as
  its state: it rejects a submission with a conflict while the budget lasts, then
  accepts and bumps the resource version. A fetched object carries the remaining budget
  as its version, so that successive snapshots differ; every delete finds nothing.
  \<open>failing e\<close> answers every call with the error \<open>e\<close>.
\<close>

definition an_object :: entity where
  "an_object = \<lparr>name = ''x'', namespace = ''ns'', resourceVersion = 0, labels = []\<rparr>"

definition start :: "'s \<Rightarrow> 's world" where
  "start s = \<lparr>heap = (\<lambda>p. an_object), next_addr = 1, server = s, calls = []\<rparr>"

definition simulated :: "nat backend" where
  "simulated =
     \<lparr>Create = (\<lambda>r y s. ((Some y, None), s)),
      Get = (\<lambda>r n s. (Inr \<lparr>name = n, namespace = snd r, resourceVersion = s, labels = []\<rparr>, s)),
      List = (\<lambda>r s. (Inr [], s)),
      Delete = (\<lambda>r n s. (Some (StatusError NotFound ''not found''), s)),
      Update = (\<lambda>r y s. if 0 < s then (Inl (StatusError Conflict ''conflict''), s - 1)
                         else (Inr (y\<lparr>resourceVersion := Suc (resourceVersion y)\<rparr>), s))\<rparr>"

definition failing :: "err \<Rightarrow> unit backend" where
  "failing e =
     \<lparr>Create = (\<lambda>r y s. ((None, Some e), s)),
      Get = (\<lambda>r n s. (Inl e, s)),
      List = (\<lambda>r s. (Inl e, s)),
      Delete = (\<lambda>r n s. (Some e, s)),
      Update = (\<lambda>r y s. (Inl e, s))\<rparr>"

text \<open>
  \<open>rejecting e\<close> serves every fetch and rejects every submission with \<open>e\<close>.
  \<open>vanishing e\<close> serves the first fetch only, fails every later one with \<open>e\<close>, and
  rejects every submission with a conflict. \<open>already_there\<close> answers every create
  with AlreadyExists and an empty object, which is what the generated typed clients
  return beside an error, and refuses to fetch the empty name; \<open>failing e\<close> returns nil
  beside the error, as the fake clientset does.
\<close>

definition set_label :: "entity \<Rightarrow> entity" where
  "set_label x = x\<lparr>labels := (''a'', ''b'') # labels x\<rparr>"

definition rejecting :: "err \<Rightarrow> unit backend" where
  "rejecting e =
     \<lparr>Create = (\<lambda>r y s. ((Some y, None), s)),
      Get = (\<lambda>r n s. (Inr \<lparr>name = n, namespace = snd r, resourceVersion = 0, labels = []\<rparr>, s)),
      List = (\<lambda>r s. (Inr [], s)),
      Delete = (\<lambda>r n s. (None, s)),
      Update = (\<lambda>r y s. (Inl e, s))\<rparr>"

definition vanishing :: "err \<Rightarrow> nat backend" where
  "vanishing e =
     \<lparr>Create = (\<lambda>r y s. ((Some y, None), s)),
      Get = (\<lambda>r n s. if s = 0
                then (Inr \<lparr>name = n, namespace = snd r, resourceVersion = 0, labels = []\<rparr>, 1)
                else (Inl e, s)),
      List = (\<lambda>r s. (Inr [], s)),
      Delete = (\<lambda>r n s. (None, s)),
      Update = (\<lambda>r y s. (Inl (StatusError Conflict ''conflict''), s))\<rparr>"

definition empty_object :: entity where
  "empty_object = \<lparr>name = [], namespace = [], resourceVersion = 0, labels = []\<rparr>"

definition already_there :: "unit backend" where
  "already_there =
     \<lparr>Create = (\<lambda>r y s. ((Some empty_object, Some (StatusError AlreadyExists ''already exists'')), s)),
      Get = (\<lambda>r n s. if n = [] then (Inl (StatusError Other ''resource name may not be empty''), s)
                       else (Inr \<lparr>name = n, namespace = snd r, resourceVersion = 1, labels = []\<rparr>, s)),
      List = (\<lambda>r s. (Inr [], s)),
      Delete = (\<lambda>r n s. (None, s)),
      Update = (\<lambda>r y s. (Inr y, s))\<rparr>"

text \<open>
  A world with two objects of the same name that differ in every other field.
\<close>

definition two_objects :: "nat world" where
  "two_objects =
     \<lparr>heap = (\<lambda>p. an_object)
         (1 := \<lparr>name = ''x'', namespace = ''elsewhere'', resourceVersion = 41,
                labels = [(''stale'', ''yes'')]\<rparr>),
      next_addr = 2, server = 1, calls = []\<rparr>"

text \<open>The messages an error was wrapped with, outermost first.\<close>

fun context_of :: "err \<Rightarrow> string list" where
  "context_of (StatusError r m) = []"
| "context_of (Wrapf e m) = m # context_of e"

section \<open>Stepping through the clients and the loop\<close>

lemma record_call_sel [simp]:
  "heap (record_call s' ev w) = heap w"
  "next_addr (record_call s' ev w) = next_addr w"
  "server (record_call s' ev w) = s'"
  "calls (record_call s' ev w) = calls w @ [ev]"
  by (simp_all add: record_call_def)

lemma new_sel [simp]:
  "fst (new x w) = next_addr w"
  "heap (snd (new x w)) = (heap w)(next_addr w := x)"
  "next_addr (snd (new x w)) = Suc (next_addr w)"
  "server (snd (new x w)) = server w"
  "calls (snd (new x w)) = calls w"
  by (simp_all add: new_def)

lemma call_updateFunc_sel [simp]:
  "heap (call_updateFunc f p w) = (heap w)(p := f (heap w p))"
  "next_addr (call_updateFunc f p w) = next_addr w"
  "server (call_updateFunc f p w) = server w"
  "calls (call_updateFunc f p w) = calls w @ [EvMutate (heap w p)]"
  by (simp_all add: call_updateFunc_def)

lemma client_Get_eq:
  "client_Get b r n w =
     (case Get b r n (server w) of
        (Inl e, s') \<Rightarrow> (Inl e, record_call s' (EvGet r n (Inl e)) w)
      | (Inr x, s') \<Rightarrow> (Inr (next_addr w), snd (new x (record_call s' (EvGet r n (Inr x)) w))))"
  by (simp add: client_Get_def new_def split: prod.splits sum.splits)

lemma client_Update_eq:
  "client_Update b r p w =
     (case Update b r (heap w p) (server w) of
        (Inl e, s') \<Rightarrow> (Inl e, record_call s' (EvUpdate r (heap w p) (Inl e)) w)
      | (Inr z, s') \<Rightarrow>
          (Inr (next_addr w), snd (new z (record_call s' (EvUpdate r (heap w p) (Inr z)) w))))"
  by (simp add: client_Update_def new_def split: prod.splits sum.splits)

lemma retry_loop_run_aux:
  "retry_loop b res f p w = Some y \<Longrightarrow>
     (\<exists>es. calls (snd y) = calls w @ es \<and>
           submitting f (heap w p) es (handed_back (snd y) (fst y))) \<and>
     next_addr w \<le> next_addr (snd y) \<and>
     (\<forall>q < next_addr w. heap (snd y) q = heap w q)"
proof (induction rule: retry_loop.raw_induct[rotated 1, consumes 1])
  case (1 loop b res f p w y)
  show ?case
  proof (cases "Update b (res (heap w p)) (heap w p) (server w)")
    case (Pair rep s1)
    show ?thesis
    proof (cases rep)
      case (Inr z)
      with Pair 1(2) show ?thesis
        by (auto simp: client_Update_eq handed_back_def)
    next
      case (Inl e)
      note upd = Pair[unfolded Inl]
      show ?thesis
      proof (cases "IsConflict e")
        case False
        with upd 1(2) show ?thesis
          by (auto simp: client_Update_eq handed_back_def)
      next
        case True
        let ?w1 = "record_call s1 (EvUpdate (res (heap w p)) (heap w p) (Inl e)) w"
        obtain rep2 s2 where get: "Get b (res (heap w p)) (name (heap w p)) s1 = (rep2, s2)"
          by (cases "Get b (res (heap w p)) (name (heap w p)) s1")
        show ?thesis
        proof (cases rep2)
          case (Inl e2)
          with True upd get 1(2) show ?thesis
            by (auto simp: client_Update_eq client_Get_eq handed_back_def)
        next
          case (Inr x)
          let ?w2 = "snd (new x (record_call s2 (EvGet (res (heap w p)) (name (heap w p)) (Inr x)) ?w1))"
          let ?w3 = "call_updateFunc f (next_addr w) ?w2"
          from True upd get Inr 1(2)
          have rec: "loop b res f (next_addr w) ?w3 = Some y"
            by (simp add: client_Update_eq client_Get_eq)
          from 1(1)[OF rec] obtain es where
            es: "calls (snd y) = calls ?w3 @ es"
              "submitting f (heap ?w3 (next_addr w)) es (handed_back (snd y) (fst y))"
            and na: "next_addr ?w3 \<le> next_addr (snd y)"
            and fr: "\<forall>q < next_addr ?w3. heap (snd y) q = heap ?w3 q"
            by blast
          have "calls (snd y) = calls w @ (EvUpdate (res (heap w p)) (heap w p) (Inl e)
                  # EvGet (res (heap w p)) (name (heap w p)) (Inr x) # EvMutate x # es)"
            using es(1) by simp
          moreover have "submitting f (heap w p) (EvUpdate (res (heap w p)) (heap w p) (Inl e)
                  # EvGet (res (heap w p)) (name (heap w p)) (Inr x) # EvMutate x # es)
                  (handed_back (snd y) (fst y))"
            using es(2) True by simp
          moreover have "next_addr w \<le> next_addr (snd y)"
            using na by simp
          moreover have "\<forall>q < next_addr w. heap (snd y) q = heap w q"
            using fr by simp
          ultimately show ?thesis by blast
        qed
      qed
    qed
  qed
qed


lemma retry_loop_accepted:
  "Update b (res (heap w p)) (heap w p) (server w) = (Inr z, s1) \<Longrightarrow>
   retry_loop b res f p w =
     Some (Inr (next_addr w),
           snd (new z (record_call s1 (EvUpdate (res (heap w p)) (heap w p) (Inr z)) w)))"
  by (subst retry_loop.simps) (simp add: client_Update_eq)

lemma retry_loop_failed:
  "Update b (res (heap w p)) (heap w p) (server w) = (Inl e, s1) \<Longrightarrow> \<not> IsConflict e \<Longrightarrow>
   retry_loop b res f p w =
     Some (Inl e, record_call s1 (EvUpdate (res (heap w p)) (heap w p) (Inl e)) w)"
  by (subst retry_loop.simps) (simp add: client_Update_eq)

lemma retry_loop_refetch_failed:
  "Update b (res (heap w p)) (heap w p) (server w) = (Inl e, s1) \<Longrightarrow> IsConflict e \<Longrightarrow>
   Get b (res (heap w p)) (name (heap w p)) s1 = (Inl e2, s2) \<Longrightarrow>
   retry_loop b res f p w =
     Some (Inl e2, record_call s2 (EvGet (res (heap w p)) (name (heap w p)) (Inl e2))
                     (record_call s1 (EvUpdate (res (heap w p)) (heap w p) (Inl e)) w))"
  by (subst retry_loop.simps) (simp add: client_Update_eq client_Get_eq)

lemma retry_loop_retry:
  "Update b (res (heap w p)) (heap w p) (server w) = (Inl e, s1) \<Longrightarrow> IsConflict e \<Longrightarrow>
   Get b (res (heap w p)) (name (heap w p)) s1 = (Inr x, s2) \<Longrightarrow>
   retry_loop b res f p w =
     retry_loop b res f (next_addr w)
       (call_updateFunc f (next_addr w)
          (snd (new x (record_call s2 (EvGet (res (heap w p)) (name (heap w p)) (Inr x))
                         (record_call s1 (EvUpdate (res (heap w p)) (heap w p) (Inl e)) w)))))"
  by (subst retry_loop.simps) (simp add: client_Update_eq client_Get_eq)

lemma run_projections:
  "fetching wrap f es out \<Longrightarrow> mutated es = fetched es \<and> submitted es = map f (fetched es)"
  "submitting f y es out \<Longrightarrow> mutated es = fetched es \<and> submitted es = y # map f (fetched es)"
  by (induction wrap f es out and f y es out rule: fetching_submitting.induct)
     (auto split: if_splits)

lemma run_length:
  "fetching wrap f es (Inr z) \<Longrightarrow> length es = 3 * length (fetched es)"
  "submitting f y es (Inr z) \<Longrightarrow> Suc (Suc (length es)) = 3 * Suc (length (fetched es))"
  by (induction wrap f es "Inr z :: err + entity" and f y es "Inr z :: err + entity"
        rule: fetching_submitting.induct)
     (auto split: if_splits)

lemma retry_loop_budget:
  assumes "conflict_budget b k c" and "\<And>x. fst (res x) = k"
  shows "c (server w) = N \<Longrightarrow>
     \<exists>q w'. retry_loop b res f p w = Some (Inr q, w') \<and>
            length (fetched (drop (length (calls w)) (calls w'))) = N"
proof (induction N arbitrary: p w)
  case 0
  from assms 0 obtain z s1 where
    "Update b (res (heap w p)) (heap w p) (server w) = (Inr z, s1)"
    unfolding conflict_budget_def by (metis prod.collapse)
  from retry_loop_accepted[where res=res and w=w and p=p, OF this] show ?case by simp
next
  case (Suc N)
  let ?r = "res (heap w p)"
  from assms Suc(2) obtain e s1 where
    upd: "Update b ?r (heap w p) (server w) = (Inl e, s1)" "IsConflict e" "c s1 = N"
    unfolding conflict_budget_def
    by (metis prod.collapse zero_less_Suc Suc_inject)
  from assms obtain x s2 where
    get: "Get b ?r (name (heap w p)) s1 = (Inr x, s2)" "c s2 = c s1"
    unfolding conflict_budget_def by (metis prod.collapse)
  let ?w3 = "call_updateFunc f (next_addr w)
          (snd (new x (record_call s2 (EvGet ?r (name (heap w p)) (Inr x))
                         (record_call s1 (EvUpdate ?r (heap w p) (Inl e)) w))))"
  have "c (server ?w3) = N" using upd get by simp
  from Suc(1)[OF this, of "next_addr w"] obtain q w' where
    r: "retry_loop b res f (next_addr w) ?w3 = Some (Inr q, w')"
      "length (fetched (drop (length (calls ?w3)) (calls w'))) = N"
    by blast
  from retry_loop_run_aux[OF r(1)] obtain es where es: "calls w' = calls ?w3 @ es"
    by auto
  have "retry_loop b res f p w = Some (Inr q, w')"
    using retry_loop_retry[where res=res and w=w and p=p, OF upd(1,2) get(1)] r(1) by simp
  moreover have "length (fetched (drop (length (calls w)) (calls w'))) = Suc N"
    using r(2) es by simp
  ultimately show ?case by blast
qed



section \<open>The three operations are instances of the common shape\<close>

lemma UpdatePV_loop_sub:
  "UpdatePV_loop b f p w = Some y \<Longrightarrow>
     retry_loop b (\<lambda>x. (PersistentVolume, [])) f p w = Some y"
proof (induction rule: UpdatePV_loop.raw_induct[rotated 1, consumes 1])
  case (1 loop b f p w y)
  then show ?case
    by (subst retry_loop.simps)
       (auto simp: PersistentVolumes_def split: prod.splits sum.splits if_splits)
qed

lemma UpdatePV_loop_sup:
  "retry_loop b (\<lambda>x. (PersistentVolume, [])) f p w = Some y \<Longrightarrow>
     UpdatePV_loop b f p w = Some y"
proof (induction b "\<lambda>x::entity. (PersistentVolume, [] :: string)" f p w y
    rule: retry_loop.raw_induct[rotated 1, consumes 1])
  case (1 loop b f p w y)
  then show ?case
    by (subst UpdatePV_loop.simps)
       (auto simp: PersistentVolumes_def split: prod.splits sum.splits if_splits)
qed

lemma UpdatePV_loop_eq:
  "UpdatePV_loop b f p w = retry_loop b (\<lambda>x. (PersistentVolume, [])) f p w"
  by (metis UpdatePV_loop_sub UpdatePV_loop_sup not_Some_eq)

lemma UpdatePVC_loop_sub:
  "UpdatePVC_loop b f p w = Some y \<Longrightarrow>
     retry_loop b (\<lambda>x. (PersistentVolumeClaim, namespace x)) f p w = Some y"
proof (induction rule: UpdatePVC_loop.raw_induct[rotated 1, consumes 1])
  case (1 loop b f p w y)
  then show ?case
    by (subst retry_loop.simps)
       (auto simp: PersistentVolumeClaims_def split: prod.splits sum.splits if_splits)
qed

lemma UpdatePVC_loop_sup:
  "retry_loop b (\<lambda>x. (PersistentVolumeClaim, namespace x)) f p w = Some y \<Longrightarrow>
     UpdatePVC_loop b f p w = Some y"
proof (induction b "\<lambda>x::entity. (PersistentVolumeClaim, namespace x)" f p w y
    rule: retry_loop.raw_induct[rotated 1, consumes 1])
  case (1 loop b f p w y)
  then show ?case
    by (subst UpdatePVC_loop.simps)
       (auto simp: PersistentVolumeClaims_def split: prod.splits sum.splits if_splits)
qed

lemma UpdatePVC_loop_eq:
  "UpdatePVC_loop b f p w = retry_loop b (\<lambda>x. (PersistentVolumeClaim, namespace x)) f p w"
  by (metis UpdatePVC_loop_sub UpdatePVC_loop_sup not_Some_eq)

lemma UpdateNamespace_loop_sub:
  "UpdateNamespace_loop b f p w = Some y \<Longrightarrow>
     retry_loop b (\<lambda>x. (Namespace, [])) f p w = Some y"
proof (induction rule: UpdateNamespace_loop.raw_induct[rotated 1, consumes 1])
  case (1 loop b f p w y)
  then show ?case
    by (subst retry_loop.simps)
       (auto simp: Namespaces_def split: prod.splits sum.splits if_splits)
qed

lemma UpdateNamespace_loop_sup:
  "retry_loop b (\<lambda>x. (Namespace, [])) f p w = Some y \<Longrightarrow>
     UpdateNamespace_loop b f p w = Some y"
proof (induction b "\<lambda>x::entity. (Namespace, [] :: string)" f p w y
    rule: retry_loop.raw_induct[rotated 1, consumes 1])
  case (1 loop b f p w y)
  then show ?case
    by (subst UpdateNamespace_loop.simps)
       (auto simp: Namespaces_def split: prod.splits sum.splits if_splits)
qed

lemma UpdateNamespace_loop_eq:
  "UpdateNamespace_loop b f p w = retry_loop b (\<lambda>x. (Namespace, [])) f p w"
  by (metis UpdateNamespace_loop_sub UpdateNamespace_loop_sup not_Some_eq)

lemma update_operations_eq:
  assumes "(k, scope, op, loop) \<in> set update_operations"
  shows "op b p f w = update_with_retry b (\<lambda>x. (k, scope x)) p f w"
    and "loop b f p w = retry_loop b (\<lambda>x. (k, scope x)) f p w"
proof -
  from assms consider
      "k = PersistentVolume" "scope = (\<lambda>x. [])" "op = UpdatePV" "loop = UpdatePV_loop"
    | "k = PersistentVolumeClaim" "scope = namespace" "op = UpdatePVC" "loop = UpdatePVC_loop"
    | "k = Namespace" "scope = (\<lambda>x. [])" "op = UpdateNamespace" "loop = UpdateNamespace_loop"
    by (auto simp: update_operations_def)
  then have "op b p f w = update_with_retry b (\<lambda>x. (k, scope x)) p f w \<and>
             loop b f p w = retry_loop b (\<lambda>x. (k, scope x)) f p w"
  proof cases
    case 1
    then show ?thesis
      by (simp add: UpdatePV_def update_with_retry_def UpdatePV_loop_eq PersistentVolumes_def
          split: prod.splits sum.splits)
  next
    case 2
    then show ?thesis
      by (simp add: UpdatePVC_def update_with_retry_def UpdatePVC_loop_eq
          PersistentVolumeClaims_def split: prod.splits sum.splits)
  next
    case 3
    then show ?thesis
      by (simp add: UpdateNamespace_def update_with_retry_def UpdateNamespace_loop_eq
          Namespaces_def split: prod.splits sum.splits)
  qed
  then show "op b p f w = update_with_retry b (\<lambda>x. (k, scope x)) p f w"
    and "loop b f p w = retry_loop b (\<lambda>x. (k, scope x)) f p w"
    by simp_all
qed

lemma update_initial_fetch_failed:
  "Get b (res (heap w p)) (name (heap w p)) (server w) = (Inl e, s1) \<Longrightarrow>
   update_with_retry b res p f w =
     Some (Inl (wrap_initial e),
           record_call s1 (EvGet (res (heap w p)) (name (heap w p)) (Inl e)) w)"
  by (simp add: update_with_retry_def client_Get_eq wrap_initial_def)

lemma update_enters_loop:
  "Get b (res (heap w p)) (name (heap w p)) (server w) = (Inr x, s1) \<Longrightarrow>
   update_with_retry b res p f w =
     retry_loop b res f (next_addr w)
       (call_updateFunc f (next_addr w)
          (snd (new x (record_call s1 (EvGet (res (heap w p)) (name (heap w p)) (Inr x)) w))))"
  by (simp add: update_with_retry_def client_Get_eq)

lemma update_run:
  assumes "update_with_retry b res p f w = Some (out, w')"
  shows "fetching wrap_initial f (new_calls w w') (handed_back w' out)"
    and "next_addr w \<le> next_addr w'"
    and "\<forall>q < next_addr w. heap w' q = heap w q"
proof -
  let ?r = "res (heap w p)" and ?n = "name (heap w p)"
  obtain rep s1 where get: "Get b ?r ?n (server w) = (rep, s1)"
    by (cases "Get b ?r ?n (server w)")
  have "fetching wrap_initial f (new_calls w w') (handed_back w' out) \<and>
        next_addr w \<le> next_addr w' \<and> (\<forall>q < next_addr w. heap w' q = heap w q)"
  proof (cases rep)
    case (Inl e)
    from update_initial_fetch_failed[where res=res and w=w and p=p, OF get[unfolded Inl]] assms
    show ?thesis by (auto simp: new_calls_def handed_back_def)
  next
    case (Inr x)
    let ?w2 = "call_updateFunc f (next_addr w)
          (snd (new x (record_call s1 (EvGet ?r ?n (Inr x)) w)))"
    from update_enters_loop[where res=res and w=w and p=p, OF get[unfolded Inr]] assms
    have "retry_loop b res f (next_addr w) ?w2 = Some (out, w')" by simp
    from retry_loop_run_aux[OF this] obtain es where
      es: "calls w' = calls ?w2 @ es"
        "submitting f (heap ?w2 (next_addr w)) es (handed_back w' out)"
      and na: "next_addr ?w2 \<le> next_addr w'"
      and fr: "\<forall>q < next_addr ?w2. heap w' q = heap ?w2 q"
      by auto
    have "new_calls w w' = EvGet ?r ?n (Inr x) # EvMutate x # es"
      using es(1) by (simp add: new_calls_def)
    moreover have "submitting f (f x) es (handed_back w' out)"
      using es(2) by simp
    ultimately have "fetching wrap_initial f (new_calls w w') (handed_back w' out)"
      by simp
    moreover have "next_addr w \<le> next_addr w'" using na by simp
    moreover have "\<forall>q < next_addr w. heap w' q = heap w q" using fr by simp
    ultimately show ?thesis by blast
  qed
  then show "fetching wrap_initial f (new_calls w w') (handed_back w' out)"
    and "next_addr w \<le> next_addr w'"
    and "\<forall>q < next_addr w. heap w' q = heap w q"
    by simp_all
qed

lemma update_budget:
  assumes "conflict_budget b k c" and "\<And>x. fst (res x) = k"
  shows "\<exists>q w'. update_with_retry b res p f w = Some (Inr q, w') \<and>
           length (fetched (new_calls w w')) = Suc (c (server w))"
proof -
  let ?r = "res (heap w p)" and ?n = "name (heap w p)"
  have r: "?r = (k, snd ?r)" using assms(2)[of "heap w p"] by (cases ?r) simp
  from assms(1) r obtain x s1 where
    get: "Get b ?r ?n (server w) = (Inr x, s1)" "c s1 = c (server w)"
    unfolding conflict_budget_def by metis
  let ?w2 = "call_updateFunc f (next_addr w)
          (snd (new x (record_call s1 (EvGet ?r ?n (Inr x)) w)))"
  have cw: "c (server ?w2) = c (server w)" using get(2) by simp
  have "\<exists>q w'. retry_loop b res f (next_addr w) ?w2 = Some (Inr q, w') \<and>
            length (fetched (drop (length (calls ?w2)) (calls w'))) = c (server w)"
    by (rule retry_loop_budget[OF assms cw])
  then obtain q w' where
    l: "retry_loop b res f (next_addr w) ?w2 = Some (Inr q, w')"
      "length (fetched (drop (length (calls ?w2)) (calls w'))) = c (server w)"
    by blast
  from retry_loop_run_aux[OF l(1)] obtain es where es: "calls w' = calls ?w2 @ es"
    by auto
  have "update_with_retry b res p f w = Some (Inr q, w')"
    using update_enters_loop[where res=res and w=w and p=p, OF get(1)] l(1) by simp
  moreover have "length (fetched (new_calls w w')) = Suc (c (server w))"
    using l(2) es by (simp add: new_calls_def)
  ultimately show ?thesis by blast
qed



lemma run_ends_with_accepted:
  "fetching wrap f es (Inr z) \<Longrightarrow> \<exists>r y. last es = EvUpdate r y (Inr z)"
  "submitting f y es (Inr z) \<Longrightarrow> \<exists>r y. last es = EvUpdate r y (Inr z)"
  by (induction wrap f es "Inr z :: err + entity" and f y es "Inr z :: err + entity"
        rule: fetching_submitting.induct)
     (auto split: if_splits)

lemma run_error_origin:
  "fetching wrap f es (Inl e) \<Longrightarrow>
     (\<exists>r y. last es = EvUpdate r y (Inl e) \<and> \<not> IsConflict e) \<or>
     (\<exists>r n e0. es = [EvGet r n (Inl e0)] \<and> e = wrap e0) \<or>
     (\<exists>r n. 1 < length es \<and> last es = EvGet r n (Inl e))"
  "submitting f y es (Inl e) \<Longrightarrow>
     (\<exists>r y. last es = EvUpdate r y (Inl e) \<and> \<not> IsConflict e) \<or>
     (\<exists>r n. last es = EvGet r n (Inl e))"
  by (induction wrap f es "Inl e :: err + entity" and f y es "Inl e :: err + entity"
        rule: fetching_submitting.induct)
     (auto split: if_splits)


lemma update_first_call:
  assumes "update_with_retry b res p f w = Some (out, w')"
  shows "\<exists>rep es. new_calls w w' = EvGet (res (heap w p)) (name (heap w p)) rep # es"
proof -
  let ?r = "res (heap w p)" and ?n = "name (heap w p)"
  obtain rep s1 where get: "Get b ?r ?n (server w) = (rep, s1)"
    by (cases "Get b ?r ?n (server w)")
  show ?thesis
  proof (cases rep)
    case (Inl e)
    from update_initial_fetch_failed[where res=res and w=w and p=p, OF get[unfolded Inl]] assms
    show ?thesis by (auto simp: new_calls_def)
  next
    case (Inr x)
    let ?w2 = "call_updateFunc f (next_addr w)
          (snd (new x (record_call s1 (EvGet ?r ?n (Inr x)) w)))"
    from update_enters_loop[where res=res and w=w and p=p, OF get[unfolded Inr]] assms
    have "retry_loop b res f (next_addr w) ?w2 = Some (out, w')" by simp
    from retry_loop_run_aux[OF this] obtain es where "calls w' = calls ?w2 @ es"
      by auto
    then show ?thesis by (simp add: new_calls_def)
  qed
qed

lemma update_operations_mem:
  "(PersistentVolume, (\<lambda>x. []), UpdatePV, UpdatePV_loop) \<in> set update_operations"
  "(PersistentVolumeClaim, namespace, UpdatePVC, UpdatePVC_loop) \<in> set update_operations"
  "(Namespace, (\<lambda>x. []), UpdateNamespace, UpdateNamespace_loop) \<in> set update_operations"
  by (simp_all add: update_operations_def)

lemma conflict_budget_simulated: "conflict_budget simulated k id"
  by (simp add: conflict_budget_def simulated_def IsConflict_def)



lemma UpdatePV_simulated:
  "map_option (\<lambda>(out, w'). (handed_back w' out, new_calls (start 1) w'))
     (UpdatePV simulated 0 set_label (start 1)) =
   Some (Inr \<lparr>name = ''x'', namespace = [], resourceVersion = 1, labels = [(''a'', ''b'')]\<rparr>,
         [EvGet (PersistentVolume, []) ''x''
            (Inr \<lparr>name = ''x'', namespace = [], resourceVersion = 1, labels = []\<rparr>),
          EvMutate \<lparr>name = ''x'', namespace = [], resourceVersion = 1, labels = []\<rparr>,
          EvUpdate (PersistentVolume, [])
            \<lparr>name = ''x'', namespace = [], resourceVersion = 1, labels = [(''a'', ''b'')]\<rparr>
            (Inl (StatusError Conflict ''conflict'')),
          EvGet (PersistentVolume, []) ''x''
            (Inr \<lparr>name = ''x'', namespace = [], resourceVersion = 0, labels = []\<rparr>),
          EvMutate \<lparr>name = ''x'', namespace = [], resourceVersion = 0, labels = []\<rparr>,
          EvUpdate (PersistentVolume, [])
            \<lparr>name = ''x'', namespace = [], resourceVersion = 0, labels = [(''a'', ''b'')]\<rparr>
            (Inr \<lparr>name = ''x'', namespace = [], resourceVersion = 1, labels = [(''a'', ''b'')]\<rparr>)])"
  apply (simp add: UpdatePV_def client_Get_eq PersistentVolumes_def simulated_def start_def
      an_object_def)
  apply (subst UpdatePV_loop.simps)
  apply (simp add: client_Get_eq client_Update_eq PersistentVolumes_def IsConflict_def)
  apply (subst UpdatePV_loop.simps)
  apply (simp add: client_Get_eq client_Update_eq PersistentVolumes_def IsConflict_def
      handed_back_def new_calls_def set_label_def)
  done

lemma UpdatePV_rejected:
  "UpdatePV (rejecting (StatusError Other ''denied'')) 0 set_label (start ()) =
     Some (Inl (StatusError Other ''denied''),
       record_call ()
         (EvUpdate (PersistentVolume, [])
            \<lparr>name = ''x'', namespace = [], resourceVersion = 0, labels = [(''a'', ''b'')]\<rparr>
            (Inl (StatusError Other ''denied'')))
         (call_updateFunc set_label 1
            (snd (new \<lparr>name = ''x'', namespace = [], resourceVersion = 0, labels = []\<rparr>
               (record_call () (EvGet (PersistentVolume, []) ''x''
                  (Inr \<lparr>name = ''x'', namespace = [], resourceVersion = 0, labels = []\<rparr>))
                  (start ()))))))"
  apply (simp add: UpdatePV_def client_Get_eq PersistentVolumes_def rejecting_def start_def
      an_object_def)
  apply (subst UpdatePV_loop.simps)
  apply (simp add: client_Update_eq PersistentVolumes_def IsConflict_def set_label_def)
  done

lemma client_Create_eq:
  "client_Create b r p w =
     (case Create b r (heap w p) (server w) of
        ((None, e), s') \<Rightarrow> ((None, e), record_call s' (EvCreate r (heap w p) (None, e)) w)
      | ((Some x, e), s') \<Rightarrow>
          ((Some (next_addr w), e),
           snd (new x (record_call s' (EvCreate r (heap w p) (Some x, e)) w))))"
  by (simp add: client_Create_def new_def split: prod.splits option.splits)

lemma get_reply:
  "fst (Get b r n (server w)) = Inl e \<Longrightarrow> fst (client_Get b r n w) = Inl e"
  by (cases "Get b r n (server w)") (simp add: client_Get_eq)

lemma delete_reply:
  "fst (client_Delete b r n w) = fst (Delete b r n (server w))"
  by (simp add: client_Delete_def split: prod.splits)

lemma list_reply:
  "fst (client_List b r w) = fst (List b r (server w))"
  by (simp add: client_List_def split: prod.splits)

text \<open>
  What the delete and create operations do with the backend's reply, on any backend.
\<close>

lemma DeleteJob_not_found:
  "fst (Delete b (Jobs ns) n (server w)) = Some e \<Longrightarrow> IsNotFound e \<Longrightarrow>
     fst (DeleteJob b n ns w) = None"
  unfolding delete_reply[symmetric]
  by (cases "client_Delete b (Jobs ns) n w") (auto simp: DeleteJob_def)

lemma DeletePod_not_found:
  "fst (Delete b (Pods ns) n (server w)) = Some e \<Longrightarrow> IsNotFound e \<Longrightarrow>
     fst (DeletePod b n ns w) = None"
  unfolding delete_reply[symmetric]
  by (cases "client_Delete b (Pods ns) n w") (auto simp: DeletePod_def)

lemma DeletePVC_passes_on:
  "fst (DeletePVC b n ns w) = fst (Delete b (PersistentVolumeClaims ns) n (server w))"
  by (simp add: DeletePVC_def delete_reply)

lemma CreateJob_refetches_what_Create_returned:
  "Create b (Jobs (namespace (heap w job))) (heap w job) (server w) = ((Some y, eo), s1) \<Longrightarrow>
   eo = None \<or> IsAlreadyExists (the eo) \<Longrightarrow>
   fst (CreateJob b job w) =
     (case fst (Get b (Jobs (namespace y)) (name y) s1) of
        Inl e2 \<Rightarrow> Returns (Inl e2)
      | Inr z \<Rightarrow> Returns (Inr (Suc (next_addr w))))"
  by (cases "Get b (Jobs (namespace y)) (name y) s1")
     (auto simp: CreateJob_def client_Create_eq client_Get_eq split: sum.splits)

lemma CreatePVC_refetches_what_Create_returned:
  "Create b (PersistentVolumeClaims (namespace (heap w pvc))) (heap w pvc) (server w) =
     ((Some y, eo), s1) \<Longrightarrow>
   eo = None \<or> IsAlreadyExists (the eo) \<Longrightarrow>
   fst (CreatePVC b pvc w) =
     (case fst (Get b (PersistentVolumeClaims (namespace y)) (name y) s1) of
        Inl e2 \<Rightarrow> Returns (Inl e2)
      | Inr z \<Rightarrow> Returns (Inr (Suc (next_addr w))))"
  by (cases "Get b (PersistentVolumeClaims (namespace y)) (name y) s1")
     (auto simp: CreatePVC_def client_Create_eq client_Get_eq split: sum.splits)

section \<open>The update operations\<close>

text \<open>
  Claim C1. For each of \<^verbatim>\<open>UpdatePV\<close>, \<^verbatim>\<open>UpdatePVC\<close> and \<^verbatim>\<open>UpdateNamespace\<close>: on a
  backend that rejects the first \<open>N\<close> update attempts with a conflict and then accepts
  (\<open>N\<close> is the budget \<open>c\<close> of the server's state at the call), the operation returns
  without error; its calls are \<open>N + 1\<close> cycles of fetch, callback, submission
  (\<open>3 * (N + 1)\<close> events, accepted by the state machine); the callback ran once per
  cycle, on the object that cycle fetched, and what was submitted is the callback's
  result on that object; and the object handed back is the one the backend returned
  from the last, successful, submission.
\<close>

theorem update_converges_after_conflicts:
  assumes "(k, scope, op, loop) \<in> set update_operations" and "conflict_budget b k c"
  shows "\<exists>q w'. op b p f w = Some (Inr q, w') \<and>
           fetching wrap_initial f (new_calls w w') (Inr (heap w' q)) \<and>
           length (new_calls w w') = 3 * Suc (c (server w)) \<and>
           length (fetched (new_calls w w')) = Suc (c (server w)) \<and>
           mutated (new_calls w w') = fetched (new_calls w w') \<and>
           submitted (new_calls w w') = map f (fetched (new_calls w w')) \<and>
           (\<exists>r y. last (new_calls w w') = EvUpdate r y (Inr (heap w' q)))"
proof -
  let ?res = "\<lambda>x. (k, scope x)"
  have op: "op b p f w = update_with_retry b ?res p f w"
    by (rule update_operations_eq(1)[OF assms(1)])
  have "\<exists>q w'. update_with_retry b ?res p f w = Some (Inr q, w') \<and>
           length (fetched (new_calls w w')) = Suc (c (server w))"
    by (rule update_budget[OF assms(2)]) simp
  then obtain q w' where
    r: "update_with_retry b ?res p f w = Some (Inr q, w')"
    and n: "length (fetched (new_calls w w')) = Suc (c (server w))"
    by blast
  have run: "fetching wrap_initial f (new_calls w w') (Inr (heap w' q))"
    using update_run(1)[OF r] by (simp add: handed_back_def)
  from run_projections(1)[OF run] run_length(1)[OF run] run_ends_with_accepted(1)[OF run] n op r run
  show ?thesis by simp
qed

theorem update_converges_after_conflicts_witness:
  "(PersistentVolume, (\<lambda>x. []), UpdatePV, UpdatePV_loop) \<in> set update_operations \<and>
   conflict_budget simulated PersistentVolume id \<and>
   (\<exists>q w'. UpdatePV simulated 0 set_label (start 1) = Some (Inr q, w') \<and>
      length (new_calls (start 1) w') = 6 \<and>
      length (mutated (new_calls (start 1) w')) = 2 \<and>
      submitted (new_calls (start 1) w') = map set_label (fetched (new_calls (start 1) w')))"
proof -
  have m: "(PersistentVolume, (\<lambda>x. []), UpdatePV, UpdatePV_loop) \<in> set update_operations"
    by (simp add: update_operations_def)
  from update_converges_after_conflicts[OF m conflict_budget_simulated,
      of 0 set_label "start 1"]
  obtain q w' where "UpdatePV simulated 0 set_label (start 1) = Some (Inr q, w')"
    "length (new_calls (start 1) w') = 3 * Suc (id (server (start 1::nat world)))"
    "length (fetched (new_calls (start 1) w')) = Suc (id (server (start 1 :: nat world)))"
    "mutated (new_calls (start 1) w') = fetched (new_calls (start 1) w')"
    "submitted (new_calls (start 1) w') = map set_label (fetched (new_calls (start 1) w'))"
    by blast
  then show ?thesis using m conflict_budget_simulated
    by (auto simp: start_def)
qed

text \<open>
  Claim C2. For each update operation: a failed initial fetch makes the operation return
  at once with that error (wrapped by \<^verbatim>\<open>errors.Wrapf\<close>), the only call recorded being the
  fetch; a successful one enters the loop. At the loop head, in every state: a submission
  that fails with an error that is not a conflict makes the loop return that error, the
  only further call being the submission; a conflict followed by a failed fetch makes it
  return the fetch's error, with these two calls and no callback; and only a conflict
  followed by a successful fetch goes round again. Every run that returns is accepted
  by the state machine, in which a failure other than a conflict is the last event.
\<close>

theorem update_aborts_on_failure:
  assumes "(k, scope, op, loop) \<in> set update_operations"
  shows
    "(Get b (k, scope (heap w p)) (name (heap w p)) (server w) = (Inl e, s1) \<longrightarrow>
        op b p f w =
          Some (Inl (wrap_initial e),
                record_call s1 (EvGet (k, scope (heap w p)) (name (heap w p)) (Inl e)) w)) \<and>
     (Get b (k, scope (heap w p)) (name (heap w p)) (server w) = (Inr x, s1) \<longrightarrow>
        op b p f w =
          loop b f (next_addr w)
            (call_updateFunc f (next_addr w)
               (snd (new x (record_call s1
                  (EvGet (k, scope (heap w p)) (name (heap w p)) (Inr x)) w))))) \<and>
     (Update b (k, scope (heap w p)) (heap w p) (server w) = (Inl e, s1) \<and> \<not> IsConflict e \<longrightarrow>
        loop b f p w =
          Some (Inl e, record_call s1 (EvUpdate (k, scope (heap w p)) (heap w p) (Inl e)) w)) \<and>
     (Update b (k, scope (heap w p)) (heap w p) (server w) = (Inl e, s1) \<and> IsConflict e \<and>
      Get b (k, scope (heap w p)) (name (heap w p)) s1 = (Inl e2, s2) \<longrightarrow>
        loop b f p w =
          Some (Inl e2,
                record_call s2 (EvGet (k, scope (heap w p)) (name (heap w p)) (Inl e2))
                  (record_call s1 (EvUpdate (k, scope (heap w p)) (heap w p) (Inl e)) w))) \<and>
     (Update b (k, scope (heap w p)) (heap w p) (server w) = (Inl e, s1) \<and> IsConflict e \<and>
      Get b (k, scope (heap w p)) (name (heap w p)) s1 = (Inr x, s2) \<longrightarrow>
        loop b f p w =
          loop b f (next_addr w)
            (call_updateFunc f (next_addr w)
               (snd (new x
                  (record_call s2 (EvGet (k, scope (heap w p)) (name (heap w p)) (Inr x))
                     (record_call s1
                        (EvUpdate (k, scope (heap w p)) (heap w p) (Inl e)) w)))))) \<and>
     (op b p f w = Some (out, w') \<longrightarrow>
        fetching wrap_initial f (new_calls w w') (handed_back w' out))"
proof -
  let ?res = "\<lambda>x. (k, scope x)"
  note eq = update_operations_eq[OF assms]
  have "Get b (?res (heap w p)) (name (heap w p)) (server w) = (Inl e, s1) \<longrightarrow>
        op b p f w =
          Some (Inl (wrap_initial e),
                record_call s1 (EvGet (?res (heap w p)) (name (heap w p)) (Inl e)) w)"
    using update_initial_fetch_failed[where res="?res" and w=w and p=p and b=b and f=f]
    by (simp add: eq)
  moreover have "Get b (?res (heap w p)) (name (heap w p)) (server w) = (Inr x, s1) \<longrightarrow>
        op b p f w =
          loop b f (next_addr w)
            (call_updateFunc f (next_addr w)
               (snd (new x (record_call s1
                  (EvGet (?res (heap w p)) (name (heap w p)) (Inr x)) w))))"
    using update_enters_loop[where res="?res" and w=w and p=p and b=b and f=f]
    by (simp add: eq)
  moreover have "Update b (?res (heap w p)) (heap w p) (server w) = (Inl e, s1) \<and>
        \<not> IsConflict e \<longrightarrow>
        loop b f p w =
          Some (Inl e, record_call s1 (EvUpdate (?res (heap w p)) (heap w p) (Inl e)) w)"
    using retry_loop_failed[where res="?res" and w=w and p=p and b=b and f=f]
    by (simp add: eq)
  moreover have "Update b (?res (heap w p)) (heap w p) (server w) = (Inl e, s1) \<and> IsConflict e \<and>
      Get b (?res (heap w p)) (name (heap w p)) s1 = (Inl e2, s2) \<longrightarrow>
        loop b f p w =
          Some (Inl e2,
                record_call s2 (EvGet (?res (heap w p)) (name (heap w p)) (Inl e2))
                  (record_call s1 (EvUpdate (?res (heap w p)) (heap w p) (Inl e)) w))"
    using retry_loop_refetch_failed[where res="?res" and w=w and p=p and b=b and f=f]
    by (simp add: eq)
  moreover have "Update b (?res (heap w p)) (heap w p) (server w) = (Inl e, s1) \<and> IsConflict e \<and>
      Get b (?res (heap w p)) (name (heap w p)) s1 = (Inr x, s2) \<longrightarrow>
        loop b f p w =
          loop b f (next_addr w)
            (call_updateFunc f (next_addr w)
               (snd (new x
                  (record_call s2 (EvGet (?res (heap w p)) (name (heap w p)) (Inr x))
                     (record_call s1
                        (EvUpdate (?res (heap w p)) (heap w p) (Inl e)) w)))))"
    using retry_loop_retry[where res="?res" and w=w and p=p and b=b and f=f]
    by (simp add: eq)
  moreover have "op b p f w = Some (out, w') \<longrightarrow>
        fetching wrap_initial f (new_calls w w') (handed_back w' out)"
    using update_run(1)[where res="?res" and w=w and p=p and b=b and f=f]
    by (simp add: eq)
  ultimately show ?thesis by simp
qed

theorem update_aborts_on_failure_witness:
  "UpdateNamespace (failing (StatusError NotFound ''gone'')) 0 set_label (start ()) =
     Some (Inl (Wrapf (StatusError NotFound ''gone'') ''could not get PVC to update''),
           record_call () (EvGet (Namespace, []) ''x'' (Inl (StatusError NotFound ''gone'')))
             (start ())) \<and>
   UpdatePV_loop (rejecting (StatusError Other ''denied'')) set_label 0 (start ()) =
     Some (Inl (StatusError Other ''denied''),
           record_call () (EvUpdate (PersistentVolume, []) an_object
              (Inl (StatusError Other ''denied''))) (start ())) \<and>
   UpdatePVC_loop (vanishing (StatusError NotFound ''gone'')) set_label 0 (start 1) =
     Some (Inl (StatusError NotFound ''gone''),
           record_call 1 (EvGet (PersistentVolumeClaim, ''ns'') ''x''
              (Inl (StatusError NotFound ''gone'')))
             (record_call 1 (EvUpdate (PersistentVolumeClaim, ''ns'') an_object
                (Inl (StatusError Conflict ''conflict''))) (start 1)))"
proof -
  have "UpdateNamespace (failing (StatusError NotFound ''gone'')) 0 set_label (start ()) =
     Some (Inl (Wrapf (StatusError NotFound ''gone'') ''could not get PVC to update''),
           record_call () (EvGet (Namespace, []) ''x'' (Inl (StatusError NotFound ''gone'')))
             (start ()))"
    using update_aborts_on_failure[OF update_operations_mem(3),
        where b="failing (StatusError NotFound ''gone'')" and w="start ()" and p=0
          and e="StatusError NotFound ''gone''" and ?s1.0="()" and f=set_label]
    by (simp add: failing_def start_def an_object_def wrap_initial_def)
  moreover have
    "UpdatePV_loop (rejecting (StatusError Other ''denied'')) set_label 0 (start ()) =
     Some (Inl (StatusError Other ''denied''),
           record_call () (EvUpdate (PersistentVolume, []) an_object
              (Inl (StatusError Other ''denied''))) (start ()))"
    using update_aborts_on_failure[OF update_operations_mem(1),
        where b="rejecting (StatusError Other ''denied'')" and w="start ()" and p=0
          and e="StatusError Other ''denied''" and ?s1.0="()" and f=set_label]
    by (simp add: rejecting_def start_def IsConflict_def)
  moreover have
    "UpdatePVC_loop (vanishing (StatusError NotFound ''gone'')) set_label 0 (start 1) =
     Some (Inl (StatusError NotFound ''gone''),
           record_call 1 (EvGet (PersistentVolumeClaim, ''ns'') ''x''
              (Inl (StatusError NotFound ''gone'')))
             (record_call 1 (EvUpdate (PersistentVolumeClaim, ''ns'') an_object
                (Inl (StatusError Conflict ''conflict''))) (start 1)))"
    using update_aborts_on_failure[OF update_operations_mem(2),
        where b="vanishing (StatusError NotFound ''gone'')" and w="start 1" and p=0
          and e="StatusError Conflict ''conflict''" and ?s1.0=1
          and ?e2.0="StatusError NotFound ''gone''" and ?s2.0=1 and f=set_label]
    by (simp add: vanishing_def start_def IsConflict_def an_object_def)
  ultimately show ?thesis by simp
qed

text \<open>
  An update operation can return a conflict: one reported by a fetch inside the retry
  loop is returned to the caller as it is. Here the first fetch succeeds, the submission
  is rejected with a conflict, and the second fetch fails with a conflict.
\<close>

theorem update_surfaces_fetch_conflict:
  "map_option fst (UpdatePV (vanishing (StatusError Conflict ''conflict'')) 0 set_label (start 0)) =
     Some (Inl (StatusError Conflict ''conflict'')) \<and>
   IsConflict (StatusError Conflict ''conflict'')"
  apply (simp add: UpdatePV_def client_Get_eq PersistentVolumes_def vanishing_def start_def
      an_object_def IsConflict_def)
  apply (subst UpdatePV_loop.simps)
  apply (simp add: client_Update_eq client_Get_eq PersistentVolumes_def IsConflict_def)
  done

text \<open>
  Claim C5, amended. When an update operation returns an error, the error is either the
  error of the last submission and not a conflict, or the error of a failed fetch (the
  initial fetch's error wrapped, a retry fetch's error as the backend gave it, whatever
  its class). A conflict from a submission is never returned.
\<close>

theorem update_error_is_not_update_conflict:
  assumes "(k, scope, op, loop) \<in> set update_operations"
    and "op b p f w = Some (Inl e, w')"
  shows "(\<exists>r y. last (new_calls w w') = EvUpdate r y (Inl e) \<and> \<not> IsConflict e) \<or>
         (\<exists>r n e0. new_calls w w' = [EvGet r n (Inl e0)] \<and> e = wrap_initial e0) \<or>
         (\<exists>r n. 1 < length (new_calls w w') \<and> last (new_calls w w') = EvGet r n (Inl e))"
proof -
  from assms have "update_with_retry b (\<lambda>x. (k, scope x)) p f w = Some (Inl e, w')"
    by (simp add: update_operations_eq(1))
  from update_run(1)[OF this] have run: "fetching wrap_initial f (new_calls w w') (Inl e)"
    by (simp add: handed_back_def)
  show ?thesis
    using run_error_origin(1)[of wrap_initial f "new_calls w w'" e, OF run] .
qed

theorem update_error_is_not_update_conflict_witness:
  "last (new_calls (start ())
      (record_call ()
         (EvUpdate (PersistentVolume, [])
            \<lparr>name = ''x'', namespace = [], resourceVersion = 0, labels = [(''a'', ''b'')]\<rparr>
            (Inl (StatusError Other ''denied'')))
         (call_updateFunc set_label 1
            (snd (new \<lparr>name = ''x'', namespace = [], resourceVersion = 0, labels = []\<rparr>
               (record_call () (EvGet (PersistentVolume, []) ''x''
                  (Inr \<lparr>name = ''x'', namespace = [], resourceVersion = 0, labels = []\<rparr>))
                  (start ()))))))) =
     EvUpdate (PersistentVolume, [])
        \<lparr>name = ''x'', namespace = [], resourceVersion = 0, labels = [(''a'', ''b'')]\<rparr>
        (Inl (StatusError Other ''denied'')) \<and>
   \<not> IsConflict (StatusError Other ''denied'')"
  using update_error_is_not_update_conflict[OF update_operations_mem(1), OF UpdatePV_rejected]
  by (simp add: new_calls_def start_def IsConflict_def)

text \<open>
  Claim C7. For each update operation: two calls whose passed-in objects agree on the
  name (and on the namespace, where the operation is scoped by it) give the same result,
  the same server state, the same store and the same recorded calls, whatever else the
  two objects hold. The first call of a run is the fetch by that name, and every object
  submitted is the callback's result on a fetched object.
\<close>

theorem update_reads_only_the_key:
  assumes "(k, scope, op, loop) \<in> set update_operations"
    and "name (heap w p) = name (heap w p')"
    and "scope (heap w p) = scope (heap w p')"
  shows "op b p f w = op b p' f w \<and>
         (\<forall>out w'. op b p f w = Some (out, w') \<longrightarrow>
            (\<exists>rep es. new_calls w w' = EvGet (k, scope (heap w p)) (name (heap w p)) rep # es) \<and>
            submitted (new_calls w w') = map f (fetched (new_calls w w')))"
proof -
  let ?res = "\<lambda>x. (k, scope x)"
  have op: "op b q f w = update_with_retry b ?res q f w" for q
    by (rule update_operations_eq(1)[OF assms(1)])
  have "op b p f w = op b p' f w"
    using assms(2,3) by (simp add: op update_with_retry_def)
  moreover have
    "(\<exists>rep es. new_calls w w' = EvGet (k, scope (heap w p)) (name (heap w p)) rep # es) \<and>
     submitted (new_calls w w') = map f (fetched (new_calls w w'))"
    if "op b p f w = Some (out, w')" for out w'
  proof -
    from that have r: "update_with_retry b ?res p f w = Some (out, w')"
      by (simp add: op)
    from update_first_call[OF r] run_projections(1)[OF update_run(1)[OF r]]
    show ?thesis by simp
  qed
  ultimately show ?thesis by blast
qed

theorem update_reads_only_the_key_witness:
  "name (heap two_objects 0) = name (heap two_objects 1) \<and>
   heap two_objects 0 \<noteq> heap two_objects 1 \<and>
   UpdatePV simulated 0 set_label two_objects = UpdatePV simulated 1 set_label two_objects"
  using update_reads_only_the_key[OF update_operations_mem(1),
      where w=two_objects and p=0 and p'=1 and b=simulated and f=set_label]
  by (simp add: two_objects_def an_object_def)



text \<open>
  Claim C10. For each update operation that returns: every object that was in the store
  before the call, the caller's own included, is unchanged after it. The callback only
  ever runs on the objects the fetches allocated.
\<close>

theorem update_leaves_callers_object:
  assumes "(k, scope, op, loop) \<in> set update_operations"
    and "op b p f w = Some (out, w')"
  shows "(p < next_addr w \<longrightarrow> heap w' p = heap w p) \<and>
         (\<forall>q < next_addr w. heap w' q = heap w q)"
proof -
  from assms have "update_with_retry b (\<lambda>x. (k, scope x)) p f w = Some (out, w')"
    by (simp add: update_operations_eq(1))
  from update_run(3)[OF this] show ?thesis by simp
qed

theorem update_leaves_callers_object_witness:
  "0 < next_addr (start ()) \<and>
   heap (record_call ()
         (EvUpdate (PersistentVolume, [])
            \<lparr>name = ''x'', namespace = [], resourceVersion = 0, labels = [(''a'', ''b'')]\<rparr>
            (Inl (StatusError Other ''denied'')))
         (call_updateFunc set_label 1
            (snd (new \<lparr>name = ''x'', namespace = [], resourceVersion = 0, labels = []\<rparr>
               (record_call () (EvGet (PersistentVolume, []) ''x''
                  (Inr \<lparr>name = ''x'', namespace = [], resourceVersion = 0, labels = []\<rparr>))
                  (start ())))))) 0 = an_object"
  using update_leaves_callers_object[OF update_operations_mem(1), OF UpdatePV_rejected]
  by (simp add: start_def)

section \<open>Delete and create\<close>

text \<open>
  Claim C3. \<^verbatim>\<open>DeleteJob\<close> and \<^verbatim>\<open>DeletePod\<close> turn the backend's NotFound into success;
  \<^verbatim>\<open>DeletePVC\<close> returns the backend's answer as it is, NotFound included.
\<close>

theorem DeletePVC_surfaces_not_found:
  "fst (DeletePVC simulated ''x'' ''ns'' (start 0)) = Some (StatusError NotFound ''not found'') \<and>
   IsNotFound (StatusError NotFound ''not found'') \<and>
   fst (DeleteJob simulated ''x'' ''ns'' (start 0)) = None \<and>
   fst (DeletePod simulated ''x'' ''ns'' (start 0)) = None"
  by (simp add: DeletePVC_def DeleteJob_def DeletePod_def client_Delete_def simulated_def
      start_def IsNotFound_def)

text \<open>
  Claim C4. \<^verbatim>\<open>CreateJob\<close> and \<^verbatim>\<open>CreatePVC\<close> assign the object returned by \<open>Create\<close>
  to the variable they then read the name and namespace from, also when \<open>Create\<close>
  reported AlreadyExists. The re-fetch is therefore addressed by what came back beside
  the error: with an empty object the operation returns the error of fetching the empty
  name although the object exists under the caller's name, and with nil it panics.
\<close>

theorem Create_fails_when_already_exists:
  "fst (CreateJob already_there 0 (start ())) =
     Returns (Inl (StatusError Other ''resource name may not be empty'')) \<and>
   fst (CreatePVC already_there 0 (start ())) =
     Returns (Inl (StatusError Other ''resource name may not be empty'')) \<and>
   fst (Get already_there (Jobs ''ns'') ''x'' ()) =
     Inr \<lparr>name = ''x'', namespace = ''ns'', resourceVersion = 1, labels = []\<rparr> \<and>
   fst (CreateJob (failing (StatusError AlreadyExists ''already exists'')) 0 (start ())) = Panics \<and>
   fst (CreatePVC (failing (StatusError AlreadyExists ''already exists'')) 0 (start ())) = Panics"
  by (simp add: CreateJob_def CreatePVC_def client_Create_def client_Get_eq already_there_def
      failing_def start_def an_object_def empty_object_def new_def IsAlreadyExists_def Jobs_def
      PersistentVolumeClaims_def)

section \<open>The list operations\<close>

text \<open>
  Claim C6. For each of \<^verbatim>\<open>ListPods\<close>, \<^verbatim>\<open>ListPVCs\<close> and \<^verbatim>\<open>ListNamespaces\<close>: when the
  backend's list call succeeds with no items, the operation returns the empty sequence
  and no error; and the operation returns an error exactly when the backend's list call
  does.
\<close>

theorem list_returns_backend_reply:
  "(fst (List b (Pods ns) (server w)) = Inr [] \<longrightarrow> fst (ListPods b ns w) = Inr []) \<and>
   (fst (List b (PersistentVolumeClaims ns) (server w)) = Inr [] \<longrightarrow> fst (ListPVCs b ns w) = Inr []) \<and>
   (fst (List b Namespaces (server w)) = Inr [] \<longrightarrow> fst (ListNamespaces b w) = Inr []) \<and>
   isl (fst (ListPods b ns w)) = isl (fst (List b (Pods ns) (server w))) \<and>
   isl (fst (ListPVCs b ns w)) = isl (fst (List b (PersistentVolumeClaims ns) (server w))) \<and>
   isl (fst (ListNamespaces b w)) = isl (fst (List b Namespaces (server w)))"
proof -
  have "fst (ListPods b ns w) = fst (List b (Pods ns) (server w))"
    by (simp add: ListPods_def list_reply[symmetric] split: prod.splits sum.splits)
  moreover have "fst (ListPVCs b ns w) = fst (List b (PersistentVolumeClaims ns) (server w))"
    by (simp add: ListPVCs_def list_reply[symmetric] split: prod.splits sum.splits)
  moreover have "fst (ListNamespaces b w) = fst (List b Namespaces (server w))"
    by (simp add: ListNamespaces_def list_reply[symmetric] split: prod.splits sum.splits)
  ultimately show ?thesis by simp
qed

theorem list_returns_backend_reply_witness:
  "fst (List simulated (Pods ''ns'') (server (start 0))) = Inr [] \<and>
   fst (ListPods simulated ''ns'' (start 0)) = Inr [] \<and>
   fst (ListPVCs simulated ''ns'' (start 0)) = Inr [] \<and>
   fst (ListNamespaces simulated (start 0)) = Inr [] \<and>
   isl (fst (ListPods (failing (StatusError Other ''down'')) ''ns'' (start ())))"
  using list_returns_backend_reply[of simulated "''ns''" "start 0"]
    list_returns_backend_reply[of "failing (StatusError Other ''down'')" "''ns''" "start ()"]
  by (simp add: simulated_def failing_def start_def)

section \<open>Context of the errors\<close>

text \<open>
  Not every failure is wrapped with context: \<^verbatim>\<open>GetJob\<close> returns the backend's error
  with nothing added.
\<close>

theorem GetJob_adds_no_context:
  "fst (GetJob (failing (StatusError Other ''down'')) ''x'' ''ns'' (start ())) =
     Inl (StatusError Other ''down'') \<and>
   context_of (StatusError Other ''down'') = []"
  by (simp add: GetJob_def client_Get_eq failing_def start_def)

text \<open>
  Claim C9, amended, path by path. Wrapped with a message naming the operation and the
  kind: a failed create (other than AlreadyExists) in \<^verbatim>\<open>CreateJob\<close> and \<^verbatim>\<open>CreatePVC\<close>,
  and a failed initial fetch in \<^verbatim>\<open>UpdatePVC\<close>. Returned as the backend gave it, with
  nothing added: a failed re-fetch after a create; a failure of \<^verbatim>\<open>GetJob\<close>, \<^verbatim>\<open>GetPV\<close>,
  \<^verbatim>\<open>GetPVC\<close>, \<^verbatim>\<open>GetNamespace\<close>, \<^verbatim>\<open>ListPods\<close>, \<^verbatim>\<open>ListPVCs\<close>, \<^verbatim>\<open>ListNamespaces\<close>;
  a failure other than NotFound of \<^verbatim>\<open>DeleteJob\<close> and \<^verbatim>\<open>DeletePod\<close>; any failure of
  \<^verbatim>\<open>DeletePVC\<close>; and, in the three update operations, the error of a run that made more
  than one call, which is the error of a submission or of a fetch after the first. The
  statement covers these paths and no other: it says nothing of a failed initial fetch
  in \<^verbatim>\<open>UpdatePV\<close> and \<^verbatim>\<open>UpdateNamespace\<close>.
\<close>

theorem error_context_by_path:
  "(fst (Create b (Jobs (namespace (heap w p))) (heap w p) (server w)) = (obj, Some e) \<and>
      \<not> IsAlreadyExists e \<longrightarrow>
      fst (CreateJob b p w) = Returns (Inl (Wrapf e ''could not create Job''))) \<and>
   (fst (Create b (PersistentVolumeClaims (namespace (heap w p))) (heap w p) (server w)) =
        (obj, Some e) \<and> \<not> IsAlreadyExists e \<longrightarrow>
      fst (CreatePVC b p w) = Returns (Inl (Wrapf e ''could not create PVC''))) \<and>
   (fst (Get b (PersistentVolumeClaims (namespace (heap w p))) (name (heap w p)) (server w)) =
        Inl e \<longrightarrow>
      map_option fst (UpdatePVC b p f w) = Some (Inl (Wrapf e ''could not get PVC to update''))) \<and>
   (Create b (Jobs (namespace (heap w p))) (heap w p) (server w) = ((Some y, eo), s1) \<and>
      (eo = None \<or> IsAlreadyExists (the eo)) \<and>
      fst (Get b (Jobs (namespace y)) (name y) s1) = Inl e \<longrightarrow>
      fst (CreateJob b p w) = Returns (Inl e)) \<and>
   (Create b (PersistentVolumeClaims (namespace (heap w p))) (heap w p) (server w) =
        ((Some y, eo), s1) \<and>
      (eo = None \<or> IsAlreadyExists (the eo)) \<and>
      fst (Get b (PersistentVolumeClaims (namespace y)) (name y) s1) = Inl e \<longrightarrow>
      fst (CreatePVC b p w) = Returns (Inl e)) \<and>
   (fst (Get b (Jobs ns) n (server w)) = Inl e \<longrightarrow> fst (GetJob b n ns w) = Inl e) \<and>
   (fst (Get b PersistentVolumes n (server w)) = Inl e \<longrightarrow> fst (GetPV b n w) = Inl e) \<and>
   (fst (Get b (PersistentVolumeClaims ns) n (server w)) = Inl e \<longrightarrow>
      fst (GetPVC b n ns w) = Inl e) \<and>
   (fst (Get b Namespaces n (server w)) = Inl e \<longrightarrow> fst (GetNamespace b n w) = Inl e) \<and>
   (fst (List b (Pods ns) (server w)) = Inl e \<longrightarrow> fst (ListPods b ns w) = Inl e) \<and>
   (fst (List b (PersistentVolumeClaims ns) (server w)) = Inl e \<longrightarrow>
      fst (ListPVCs b ns w) = Inl e) \<and>
   (fst (List b Namespaces (server w)) = Inl e \<longrightarrow> fst (ListNamespaces b w) = Inl e) \<and>
   (fst (Delete b (Jobs ns) n (server w)) = Some e \<and> \<not> IsNotFound e \<longrightarrow>
      fst (DeleteJob b n ns w) = Some e) \<and>
   (fst (Delete b (Pods ns) n (server w)) = Some e \<and> \<not> IsNotFound e \<longrightarrow>
      fst (DeletePod b n ns w) = Some e) \<and>
   (fst (Delete b (PersistentVolumeClaims ns) n (server w)) = Some e \<longrightarrow>
      fst (DeletePVC b n ns w) = Some e) \<and>
   ((k, scope, op, loop) \<in> set update_operations \<and> op b p f w = Some (Inl e, w') \<and>
      1 < length (new_calls w w') \<longrightarrow>
      (\<exists>r y. last (new_calls w w') = EvUpdate r y (Inl e)) \<or>
      (\<exists>r n. last (new_calls w w') = EvGet r n (Inl e)))"
proof -
  have c1: "fst (CreateJob b p w) = Returns (Inl (Wrapf e ''could not create Job''))"
    if "fst (Create b (Jobs (namespace (heap w p))) (heap w p) (server w)) = (obj, Some e)"
      and "\<not> IsAlreadyExists e"
    using that
    by (cases "Create b (Jobs (namespace (heap w p))) (heap w p) (server w)")
       (simp add: CreateJob_def client_Create_eq split: option.splits)
  have c2: "fst (CreatePVC b p w) = Returns (Inl (Wrapf e ''could not create PVC''))"
    if "fst (Create b (PersistentVolumeClaims (namespace (heap w p))) (heap w p) (server w)) =
          (obj, Some e)"
      and "\<not> IsAlreadyExists e"
    using that
    by (cases "Create b (PersistentVolumeClaims (namespace (heap w p))) (heap w p) (server w)")
       (simp add: CreatePVC_def client_Create_eq split: option.splits)
  have u: "map_option fst (UpdatePVC b p f w) =
             Some (Inl (Wrapf e ''could not get PVC to update''))"
    if "fst (Get b (PersistentVolumeClaims (namespace (heap w p))) (name (heap w p)) (server w))
          = Inl e"
    using that
    by (cases "Get b (PersistentVolumeClaims (namespace (heap w p))) (name (heap w p)) (server w)")
       (simp add: UpdatePVC_def client_Get_eq)
  have r1: "fst (CreateJob b p w) = Returns (Inl e)"
    if "Create b (Jobs (namespace (heap w p))) (heap w p) (server w) = ((Some y, eo), s1)"
      and "eo = None \<or> IsAlreadyExists (the eo)"
      and "fst (Get b (Jobs (namespace y)) (name y) s1) = Inl e"
    using that
    by (cases "Get b (Jobs (namespace y)) (name y) s1")
       (auto simp: CreateJob_def client_Create_eq client_Get_eq)
  have r2: "fst (CreatePVC b p w) = Returns (Inl e)"
    if "Create b (PersistentVolumeClaims (namespace (heap w p))) (heap w p) (server w) =
          ((Some y, eo), s1)"
      and "eo = None \<or> IsAlreadyExists (the eo)"
      and "fst (Get b (PersistentVolumeClaims (namespace y)) (name y) s1) = Inl e"
    using that
    by (cases "Get b (PersistentVolumeClaims (namespace y)) (name y) s1")
       (auto simp: CreatePVC_def client_Create_eq client_Get_eq)
  have g: "fst (GetJob b n ns w) = Inl e" if "fst (Get b (Jobs ns) n (server w)) = Inl e"
    using get_reply[OF that]
    by (cases "client_Get b (Jobs ns) n w") (auto simp: GetJob_def split: sum.splits)
  have g2: "fst (GetPV b n w) = Inl e" if "fst (Get b PersistentVolumes n (server w)) = Inl e"
    using get_reply[OF that]
    by (cases "client_Get b PersistentVolumes n w") (auto simp: GetPV_def split: sum.splits)
  have g3: "fst (GetPVC b n ns w) = Inl e"
    if "fst (Get b (PersistentVolumeClaims ns) n (server w)) = Inl e"
    using get_reply[OF that]
    by (cases "client_Get b (PersistentVolumeClaims ns) n w") (auto simp: GetPVC_def split: sum.splits)
  have g4: "fst (GetNamespace b n w) = Inl e" if "fst (Get b Namespaces n (server w)) = Inl e"
    using get_reply[OF that]
    by (cases "client_Get b Namespaces n w") (auto simp: GetNamespace_def split: sum.splits)
  have l1: "fst (ListPods b ns w) = fst (List b (Pods ns) (server w))"
    by (simp add: ListPods_def list_reply[symmetric] split: prod.splits sum.splits)
  have l2: "fst (ListPVCs b ns w) = fst (List b (PersistentVolumeClaims ns) (server w))"
    by (simp add: ListPVCs_def list_reply[symmetric] split: prod.splits sum.splits)
  have l3: "fst (ListNamespaces b w) = fst (List b Namespaces (server w))"
    by (simp add: ListNamespaces_def list_reply[symmetric] split: prod.splits sum.splits)
  have d1: "fst (DeleteJob b n ns w) = Some e"
    if "fst (Delete b (Jobs ns) n (server w)) = Some e" and "\<not> IsNotFound e"
    using that unfolding delete_reply[symmetric]
    by (cases "client_Delete b (Jobs ns) n w") (auto simp: DeleteJob_def)
  have d2: "fst (DeletePod b n ns w) = Some e"
    if "fst (Delete b (Pods ns) n (server w)) = Some e" and "\<not> IsNotFound e"
    using that unfolding delete_reply[symmetric]
    by (cases "client_Delete b (Pods ns) n w") (auto simp: DeletePod_def)
  have d3: "fst (DeletePVC b n ns w) = fst (Delete b (PersistentVolumeClaims ns) n (server w))"
    by (simp add: DeletePVC_def delete_reply)
  have up: "(\<exists>r y. last (new_calls w w') = EvUpdate r y (Inl e)) \<or>
            (\<exists>r n. last (new_calls w w') = EvGet r n (Inl e))"
    if "(k, scope, op, loop) \<in> set update_operations" and "op b p f w = Some (Inl e, w')"
      and "1 < length (new_calls w w')"
  proof -
    from that(1,2) have "update_with_retry b (\<lambda>x. (k, scope x)) p f w = Some (Inl e, w')"
      by (simp add: update_operations_eq(1))
    from update_run(1)[OF this] have run: "fetching wrap_initial f (new_calls w w') (Inl e)"
      by (simp add: handed_back_def)
    from run_error_origin(1)[of wrap_initial f "new_calls w w'" e, OF run] that(3)
    show ?thesis by auto
  qed
  show ?thesis
    using c1 c2 u r1 r2 g g2 g3 g4 d1 d2 up by (simp add: l1 l2 l3 d3)
qed

theorem error_context_by_path_witness:
  "fst (CreateJob (failing (StatusError Other ''down'')) 0 (start ())) =
     Returns (Inl (Wrapf (StatusError Other ''down'') ''could not create Job'')) \<and>
   fst (CreatePVC (failing (StatusError Other ''down'')) 0 (start ())) =
     Returns (Inl (Wrapf (StatusError Other ''down'') ''could not create PVC'')) \<and>
   map_option fst (UpdatePVC (failing (StatusError Other ''down'')) 0 set_label (start ())) =
     Some (Inl (Wrapf (StatusError Other ''down'') ''could not get PVC to update'')) \<and>
   fst (GetPV (failing (StatusError Other ''down'')) ''x'' (start ())) =
     Inl (StatusError Other ''down'') \<and>
   fst (DeletePod (failing (StatusError Other ''down'')) ''x'' ''ns'' (start ())) =
     Some (StatusError Other ''down'')"
  using error_context_by_path[
      where b="failing (StatusError Other ''down'')" and w="start ()" and p=0
        and e="StatusError Other ''down''" and obj=None and f=set_label
        and n="''x''" and ns="''ns''"]
  by (simp add: failing_def start_def IsAlreadyExists_def IsNotFound_def)

end
